theory Spec2Isabelle
  imports Main "HOL-Library.Sublist"
begin

section \<open>Python values used by \<open>auth.py\<close>\<close>

text \<open>
  A Python \<open>str\<close> is a sequence of Unicode code points, a \<open>bytes\<close> object a sequence of
  octets. The two are kept apart: code points are natural numbers, octets are HOL
  characters (which are 8 bits wide), so the literal \<open>b"authorization"\<close> is
  \<open>''authorization''\<close> and the literal \<open>"authorization"\<close> is \<open>ustr ''authorization''\<close>.
\<close>

type_synonym pystr = "nat list"
type_synonym bytes = "char list"

abbreviation ustr :: "string \<Rightarrow> pystr" where
  "ustr s \<equiv> map of_char s"

text \<open>
  The values a decoded JSON object can hold, given by their content: the authenticator
  only reads them. Floating-point numbers are left out. A dict is an association list
  in insertion order. (The payload that \<open>authorize\<close> changes in place has a model of its
  own, with dict objects in a store, in the section on the authorizer.)
\<close>

datatype pyval =
    PNone
  | PBool bool
  | PInt int
  | PStr pystr
  | PList "pyval list"
  | PDict "(pystr \<times> pyval) list"

type_synonym dict = "(pystr \<times> pyval) list"

text \<open>Truth value of an object, as \<open>not x\<close> and \<open>x or y\<close> test it.\<close>

fun truthy :: "pyval \<Rightarrow> bool" where
  "truthy PNone = False"
| "truthy (PBool b) = b"
| "truthy (PInt i) = (i \<noteq> 0)"
| "truthy (PStr s) = (s \<noteq> [])"
| "truthy (PList xs) = (xs \<noteq> [])"
| "truthy (PDict d) = (d \<noteq> [])"

definition py_or :: "pyval \<Rightarrow> pyval \<Rightarrow> pyval" where
  "py_or a b = (if truthy a then a else b)"

text \<open>\<open>d.get(k)\<close>: the value stored under \<open>k\<close>, \<open>None\<close> when the key is missing.\<close>

definition dict_get :: "dict \<Rightarrow> pystr \<Rightarrow> pyval" where
  "dict_get d k = (case map_of d k of None \<Rightarrow> PNone | Some v \<Rightarrow> v)"

text \<open>\<open>d[k] = v\<close>: an existing key keeps its position, a new key goes to the end.\<close>

fun dict_set :: "(pystr \<times> 'v) list \<Rightarrow> pystr \<Rightarrow> 'v \<Rightarrow> (pystr \<times> 'v) list" where
  "dict_set [] k v = [(k, v)]"
| "dict_set ((k', v') # d) k v = (if k' = k then (k, v) # d else (k', v') # dict_set d k v)"

text \<open>\<open>d.update(other)\<close>: every entry of \<open>other\<close> is stored into \<open>d\<close>, in order.\<close>

fun dict_update :: "(pystr \<times> 'v) list \<Rightarrow> (pystr \<times> 'v) list \<Rightarrow> (pystr \<times> 'v) list" where
  "dict_update d [] = d"
| "dict_update d ((k, v) # other) = dict_update (dict_set d k v) other"

subsection \<open>String operations\<close>

text \<open>
  \<open>s.replace(old, new)\<close>: every non-overlapping occurrence of \<open>old\<close>, found from left to
  right, is replaced. With an empty \<open>old\<close>, Python puts \<open>new\<close> before every character and
  at the end.
\<close>

fun replace_from :: "pystr \<Rightarrow> pystr \<Rightarrow> pystr \<Rightarrow> pystr" where
  "replace_from old new [] = []"
| "replace_from old new (c # cs) =
     (if old \<noteq> [] \<and> prefix old (c # cs)
      then new @ replace_from old new (drop (length old - 1) cs)
      else c # replace_from old new cs)"

definition str_replace :: "pystr \<Rightarrow> pystr \<Rightarrow> pystr \<Rightarrow> pystr" where
  "str_replace s old new =
     (if old = [] then new @ concat (map (\<lambda>c. c # new) s) else replace_from old new s)"

text \<open>
  \<open>s.split(sep, 1)[-1]\<close> for a one-character separator that occurs in \<open>s\<close>: what follows
  the first occurrence. When \<open>sep\<close> does not occur, \<open>split\<close> returns \<open>[s]\<close>, whose last
  element is \<open>s\<close> itself.
\<close>

definition split1_last :: "pystr \<Rightarrow> nat \<Rightarrow> pystr" where
  "split1_last s sep = (if sep \<in> set s then tl (dropWhile (\<lambda>c. c \<noteq> sep) s) else s)"

text \<open>
  \<open>s.lower()\<close> on the letters A to Z. Python also lowers letters outside ASCII; none of
  those becomes a letter of \<open>"true"\<close>, the only literal a lowered value is compared with
  in the functions modelled here, so the comparison is decided by this function.
\<close>

definition lower_char :: "nat \<Rightarrow> nat" where
  "lower_char c = (if 65 \<le> c \<and> c \<le> 90 then c + 32 else c)"

definition py_lower :: "pystr \<Rightarrow> pystr" where
  "py_lower s = map lower_char s"

text \<open>\<open>str(n)\<close> for an integer: decimal digits, a minus sign for negative numbers.\<close>

function digits_of :: "nat \<Rightarrow> pystr" where
  "digits_of n = (if n < 10 then [48 + n] else digits_of (n div 10) @ [48 + n mod 10])"
  by pat_completeness auto
termination
  by (relation "measure id") auto

declare digits_of.simps [simp del]

definition str_of_int :: "int \<Rightarrow> pystr" where
  "str_of_int i = (if i < 0 then 45 # digits_of (nat (- i)) else digits_of (nat i))"

text \<open>
  \<open>str(v)\<close>. For a list or a dict Python prints the \<open>repr\<close> of the elements; that
  rendering is not part of this development and is taken as the parameter \<open>repr\<close>.
\<close>

fun py_str :: "(pyval \<Rightarrow> pystr) \<Rightarrow> pyval \<Rightarrow> pystr" where
  "py_str repr (PStr s) = s"
| "py_str repr (PInt i) = str_of_int i"
| "py_str repr (PBool b) = (if b then ustr ''True'' else ustr ''False'')"
| "py_str repr PNone = ustr ''None''"
| "py_str repr v = repr v"

subsection \<open>Decoding UTF-8\<close>

text \<open>
  \<open>b.decode('utf-8')\<close> with the default strict error handling: \<open>None\<close> stands for
  \<open>UnicodeDecodeError\<close>. Overlong forms, surrogates and code points above U+10FFFF are
  rejected.
\<close>

definition is_cont :: "char \<Rightarrow> bool" where
  "is_cont b = (128 \<le> (of_char b :: nat) \<and> (of_char b :: nat) < 192)"

definition cont_bits :: "char \<Rightarrow> nat" where
  "cont_bits b = of_char b - 128"

definition push_cp :: "nat \<Rightarrow> pystr option \<Rightarrow> pystr option" where
  "push_cp c r = (case r of None \<Rightarrow> None | Some s \<Rightarrow> Some (c # s))"

fun utf8_decode :: "bytes \<Rightarrow> pystr option" where
  "utf8_decode [] = Some []"
| "utf8_decode (b0 # bs) =
     (let n0 = (of_char b0 :: nat) in
      if n0 < 128 then push_cp n0 (utf8_decode bs)
      else if 194 \<le> n0 \<and> n0 < 224 then
        (case bs of
           b1 # r \<Rightarrow>
             if is_cont b1 then push_cp ((n0 - 192) * 64 + cont_bits b1) (utf8_decode r)
             else None
         | _ \<Rightarrow> None)
      else if 224 \<le> n0 \<and> n0 < 240 then
        (case bs of
           b1 # b2 # r \<Rightarrow>
             (let cp = (n0 - 224) * 4096 + cont_bits b1 * 64 + cont_bits b2 in
              if is_cont b1 \<and> is_cont b2 \<and> 2048 \<le> cp \<and> \<not> (55296 \<le> cp \<and> cp < 57344)
              then push_cp cp (utf8_decode r) else None)
         | _ \<Rightarrow> None)
      else if 240 \<le> n0 \<and> n0 < 245 then
        (case bs of
           b1 # b2 # b3 # r \<Rightarrow>
             (let cp = (n0 - 240) * 262144 + cont_bits b1 * 4096 + cont_bits b2 * 64
                       + cont_bits b3 in
              if is_cont b1 \<and> is_cont b2 \<and> is_cont b3 \<and> 65536 \<le> cp \<and> cp < 1114112
              then push_cp cp (utf8_decode r) else None)
         | _ \<Rightarrow> None)
      else None)"

section \<open>Exceptions, environment and results\<close>

text \<open>
  The exceptions that can be raised on the paths modelled here.
  \<open>HTTPException\<close> carries \<open>status_code\<close> and \<open>detail\<close>. \<open>ExpiredSignatureError\<close> and
  \<open>InvalidTokenError\<close> are PyJWT's (the first is a subclass of the second, and the
  handlers test for it first); \<open>InvalidTokenError\<close> here stands for every
  \<open>InvalidTokenError\<close> that is not an \<open>ExpiredSignatureError\<close>. \<open>OtherException\<close> is any
  other subclass of \<open>Exception\<close>.
\<close>

datatype exn =
    HTTPException nat pystr
  | ExpiredSignatureError
  | InvalidTokenError
  | UnicodeDecodeError
  | AttributeError
  | OtherException

text \<open>The process environment, and \<open>os.getenv(key, default)\<close>.\<close>

type_synonym environ = "pystr \<rightharpoonup> pystr"

definition getenv_default :: "environ \<Rightarrow> pystr \<Rightarrow> pystr \<Rightarrow> pystr" where
  "getenv_default env key dflt = (case env key of None \<Rightarrow> dflt | Some v \<Rightarrow> v)"

text \<open>
  The dict that \<open>authenticate\<close> returns. The keys \<open>email\<close>, \<open>permissions\<close> and \<open>metadata\<close>
  are present only on the verified path: \<open>None\<close> here means that the key is absent
  from the dict, \<open>Some PNone\<close> that it is present and holds Python's \<open>None\<close>.
  \<open>display_name\<close> is a value, not a string, because the verified path stores a claim
  there without converting it.
\<close>

record user_dict =
  identity :: pystr
  display_name :: pyval
  is_authenticated :: bool
  email :: "pyval option"
  permissions :: "pystr list option"
  metadata :: "dict option"

text \<open>
  What the code takes from outside this repository: PyJWT's \<open>jwt.decode(token, key,
  algorithms=["HS256"])\<close>, which returns the payload dict or raises, and the rendering of
  lists and dicts by \<open>str\<close>.
\<close>

record pylib =
  jwt_decode :: "pystr \<Rightarrow> pystr \<Rightarrow> exn + dict"
  py_repr :: "pyval \<Rightarrow> pystr"

section \<open>The custom authenticator\<close>

text \<open>
  \<open>JWT_SECRET = os.getenv("SECRET_KEY", "mock-secret-key-for-migrations")\<close>, read once
  when the module is loaded.
\<close>

definition JWT_SECRET_of :: "environ \<Rightarrow> pystr" where
  "JWT_SECRET_of env =
     getenv_default env (ustr ''SECRET_KEY'') (ustr ''mock-secret-key-for-migrations'')"

text \<open>\<open>os.getenv("ALLOW_ANONYMOUS", "false").lower() == "true"\<close>\<close>

definition allow_anonymous :: "environ \<Rightarrow> bool" where
  "allow_anonymous env =
     (py_lower (getenv_default env (ustr ''ALLOW_ANONYMOUS'') (ustr ''false'')) = ustr ''true'')"

text \<open>\<open>os.getenv("NODE_ENV") == "development"\<close>\<close>

definition development :: "environ \<Rightarrow> bool" where
  "development env = (env (ustr ''NODE_ENV'') = Some (ustr ''development''))"

text \<open>
  Header maps: a key and a value are each a \<open>str\<close> or a \<open>bytes\<close> object.
  \<open>headers.get(k)\<close> is the application of the map; \<open>None\<close> is Python's \<open>None\<close>.
\<close>

datatype hkey = KStr pystr | KBytes bytes
datatype hval = VStr pystr | VBytes bytes

type_synonym headers = "hkey \<rightharpoonup> hval"

fun htruthy :: "hval option \<Rightarrow> bool" where
  "htruthy None = False"
| "htruthy (Some (VStr s)) = (s \<noteq> [])"
| "htruthy (Some (VBytes b)) = (b \<noteq> [])"

definition hor :: "hval option \<Rightarrow> hval option \<Rightarrow> hval option" where
  "hor a b = (if htruthy a then a else b)"

text \<open>Lines 64 to 69: the four lookups, chained with \<open>or\<close> (which associates to the left).\<close>

definition get_authorization :: "headers \<Rightarrow> hval option" where
  "get_authorization hs =
     hor (hor (hor (hs (KStr (ustr ''authorization''))) (hs (KStr (ustr ''Authorization''))))
              (hs (KBytes ''authorization'')))
         (hs (KBytes ''Authorization''))"

text \<open>Lines 72 and 73: a \<open>bytes\<close> value is decoded; the decoding is outside every \<open>try\<close>.\<close>

fun decode_authorization :: "hval option \<Rightarrow> exn + pystr option" where
  "decode_authorization None = Inr None"
| "decode_authorization (Some (VStr s)) = Inr (Some s)"
| "decode_authorization (Some (VBytes b)) =
     (case utf8_decode b of None \<Rightarrow> Inl UnicodeDecodeError | Some s \<Rightarrow> Inr (Some s))"

text \<open>Lines 75 to 87: the branch for \<open>not authorization\<close>.\<close>

definition missing_header :: "environ \<Rightarrow> exn + user_dict" where
  "missing_header env =
     (if allow_anonymous env
      then Inr \<lparr>identity = ustr ''anonymous'',
                display_name = PStr (ustr ''Anonymous User''),
                is_authenticated = False,
                email = None, permissions = None, metadata = None\<rparr>
      else Inl (HTTPException 401 (ustr ''Authorization header required'')))"

text \<open>The detail of line 93; 39 is the apostrophe.\<close>

definition invalid_format_detail :: pystr where
  "invalid_format_detail =
     ustr ''Invalid authorization format. Expected '' @ [39] @ ustr ''Bearer <token>'' @ [39]"

text \<open>Line 96.\<close>

definition token_of :: "pystr \<Rightarrow> pystr" where
  "token_of authorization = str_replace authorization (ustr ''Bearer '') []"

text \<open>Line 99: the test for the development tokens.\<close>

definition is_dummy :: "pystr \<Rightarrow> bool" where
  "is_dummy token = (prefix (ustr ''anonymous'') token \<or> prefix (ustr ''noop-'') token)"

text \<open>Lines 100 to 105; 45 is the hyphen.\<close>

definition dummy_user :: "pystr \<Rightarrow> user_dict" where
  "dummy_user token =
     (let user_id = (if 45 \<in> set token then split1_last token 45 else ustr ''anonymous'')
      in \<lparr>identity = user_id,
          display_name = PStr (ustr ''Dev User ('' @ user_id @ ustr '')''),
          is_authenticated = True,
          email = None, permissions = None, metadata = None\<rparr>)"

text \<open>
  Lines 124 to 169, the body of the \<open>try\<close>. Logging is left out, and so is the first,
  unverified \<open>jwt.decode\<close>, whose result is only logged and whose exceptions are all
  swallowed by its own handler. The \<open>HTTPException\<close> of line 150 is raised inside
  the \<open>try\<close>.
\<close>

definition verify_body :: "pylib \<Rightarrow> pystr \<Rightarrow> pystr \<Rightarrow> exn + user_dict" where
  "verify_body lib secret token =
     (case jwt_decode lib token secret of
        Inl e \<Rightarrow> Inl e
      | Inr payload \<Rightarrow>
          (let user_id = py_or (py_or (dict_get payload (ustr ''user_id''))
                                      (dict_get payload (ustr ''sub'')))
                               (dict_get payload (ustr ''id''));
               email = dict_get payload (ustr ''email'');
               name = py_or (dict_get payload (ustr ''name''))
                            (dict_get payload (ustr ''username''))
           in if \<not> truthy user_id
              then Inl (HTTPException 401 (ustr ''Invalid token: missing user identity''))
              else Inr \<lparr>identity = py_str (py_repr lib) user_id,
                        display_name =
                          py_or (py_or name email) (PStr (py_str (py_repr lib) user_id)),
                        is_authenticated = True,
                        email = Some email,
                        permissions = Some [ustr ''read'', ustr ''write''],
                        metadata = Some
                          [(ustr ''provider'', dict_get payload (ustr ''provider'')),
                           (ustr ''org_id'', dict_get payload (ustr ''orgId'')),
                           (ustr ''company_id'', dict_get payload (ustr ''companyId'')),
                           (ustr ''family_id'', dict_get payload (ustr ''familyId''))]\<rparr>))"

text \<open>
  Lines 171 to 195, the handlers of the \<open>try\<close>, in their order:
  \<open>jwt.ExpiredSignatureError\<close>, then \<open>jwt.InvalidTokenError\<close>, then \<open>Exception\<close>. There is
  no handler that lets an \<open>HTTPException\<close> through, so one raised by the body reaches
  the last handler like any other exception.
\<close>

fun verify_handlers :: "environ \<Rightarrow> exn + user_dict \<Rightarrow> exn + user_dict" where
  "verify_handlers env (Inr u) = Inr u"
| "verify_handlers env (Inl ExpiredSignatureError) =
     Inl (HTTPException 401 (ustr ''Token expired''))"
| "verify_handlers env (Inl InvalidTokenError) =
     (if development env
      then Inr \<lparr>identity = ustr ''dev-user-invalid-token'',
                display_name = PStr (ustr ''Dev User (Invalid Token)''),
                is_authenticated = True,
                email = None, permissions = None, metadata = None\<rparr>
      else Inl (HTTPException 401 (ustr ''Invalid authentication token'')))"
| "verify_handlers env (Inl e) =
     Inl (HTTPException 500 (ustr ''Authentication system error''))"

text \<open>Lines 107 to 195: the check of the secret, then the \<open>try\<close> statement.\<close>

definition validate_jwt :: "pylib \<Rightarrow> pystr \<Rightarrow> environ \<Rightarrow> pystr \<Rightarrow> exn + user_dict" where
  "validate_jwt lib secret env token =
     (if secret = [] then
        (if development env
         then Inr \<lparr>identity = ustr ''dev-user'',
                   display_name = PStr (ustr ''Development User''),
                   is_authenticated = True,
                   email = None, permissions = None, metadata = None\<rparr>
         else Inl (HTTPException 500 (ustr ''Authentication not properly configured'')))
      else verify_handlers env (verify_body lib secret token))"

text \<open>Lines 89 to 195: what happens to a non-empty header value.\<close>

definition authenticate_value :: "pylib \<Rightarrow> pystr \<Rightarrow> environ \<Rightarrow> pystr \<Rightarrow> exn + user_dict" where
  "authenticate_value lib secret env authorization =
     (if \<not> prefix (ustr ''Bearer '') authorization
      then Inl (HTTPException 401 invalid_format_detail)
      else let token = token_of authorization in
        if is_dummy token then Inr (dummy_user token)
        else validate_jwt lib secret env token)"

text \<open>
  \<open>authenticate(headers)\<close> of the custom mode (the module defines it when \<open>AUTH_TYPE\<close>
  is \<open>custom\<close>; the pair of functions of the \<open>noop\<close> mode is not modelled). \<open>secret\<close> is the module's \<open>JWT_SECRET\<close>,
  \<open>env\<close> the environment at the time of the request.
\<close>

definition authenticate :: "pylib \<Rightarrow> pystr \<Rightarrow> environ \<Rightarrow> headers \<Rightarrow> exn + user_dict" where
  "authenticate lib secret env hs =
     (case decode_authorization (get_authorization hs) of
        Inl e \<Rightarrow> Inl e
      | Inr None \<Rightarrow> missing_header env
      | Inr (Some authorization) \<Rightarrow>
          if authorization = [] then missing_header env
          else authenticate_value lib secret env authorization)"

section \<open>The owner-scoped authorizer\<close>

text \<open>
  \<open>authorize\<close> changes a dict in place, and the same dict object can be reached from the
  payload in more than one way, so the payload is modelled as objects in a store. A dict
  object lives in the store and is named by a reference, its index; the entries of a
  dict and the elements of a list hold values, and a value is \<open>None\<close>, a boolean, an
  integer, a string, a list, or a reference to a dict object. Two entries that hold the
  same reference hold the same object. Lists are not changed by the code, so they are
  kept as values. Floating-point numbers, sets and objects of other classes are left
  out. Python has no dangling reference: the references of a payload are references of
  the store.
\<close>

type_synonym ref = nat

datatype obj =
    ONone
  | OBool bool
  | OInt int
  | OStr pystr
  | OList "obj list"
  | ODict ref

type_synonym dict_obj = "(pystr \<times> obj) list"
type_synonym store = "dict_obj list"

text \<open>
  \<open>d.setdefault(k, {})\<close> for the dict object \<open>d\<close>: returns the value under \<open>k\<close> when the
  key is present (whatever that value is); otherwise a new, empty dict object is put
  into the store and stored under \<open>k\<close>, and the reference to it is returned. The second
  component is the store afterwards. (When the key is present, the \<open>{}\<close> of the call
  is never reachable; it is not put into the store.)
\<close>

definition setdefault_empty_dict :: "store \<Rightarrow> ref \<Rightarrow> pystr \<Rightarrow> obj \<times> store" where
  "setdefault_empty_dict h d k =
     (case map_of (h ! d) k of
        Some x \<Rightarrow> (x, h)
      | None \<Rightarrow> (ODict (length h), (h @ [[]])[d := dict_set (h ! d) k (ODict (length h))]))"

text \<open>
  Lines 204 to 221, the body of the \<open>try\<close>; \<open>val\<close> is the reference to the payload dict
  \<open>value\<close>. The function returns the outcome and the store afterwards. \<open>owner_filter\<close> is
  a new dict, given by its entries; \<open>metadata.update(owner_filter)\<close> changes the dict
  object that \<open>metadata\<close> refers to, and calling \<open>update\<close> on anything that is not a dict
  raises \<open>AttributeError\<close>.
\<close>

definition authorize_body :: "pystr \<Rightarrow> store \<Rightarrow> ref \<Rightarrow> (exn + dict_obj) \<times> store" where
  "authorize_body user_id h val =
     (if user_id = [] then (Inl (HTTPException 401 (ustr ''Invalid user identity'')), h)
      else let owner_filter = [(ustr ''owner'', OStr user_id)];
               (md, h1) = setdefault_empty_dict h val (ustr ''metadata'')
           in case md of
                ODict m \<Rightarrow> (Inr owner_filter, h1[m := dict_update (h1 ! m) owner_filter])
              | _ \<Rightarrow> (Inl AttributeError, h1))"

text \<open>Lines 223 to 230: an \<open>HTTPException\<close> is raised again, anything else becomes a 500.\<close>

fun authorize_handlers :: "exn + dict_obj \<Rightarrow> exn + dict_obj" where
  "authorize_handlers (Inr f) = Inr f"
| "authorize_handlers (Inl (HTTPException c d)) = Inl (HTTPException c d)"
| "authorize_handlers (Inl e) = Inl (HTTPException 500 (ustr ''Authorization system error''))"

definition authorize :: "pystr \<Rightarrow> store \<Rightarrow> ref \<Rightarrow> (exn + dict_obj) \<times> store" where
  "authorize user_id h val =
     (let (r, h') = authorize_body user_id h val in (authorize_handlers r, h'))"

section \<open>Notions used to state the properties\<close>

text \<open>The four keys under which \<open>authenticate\<close> looks for the header.\<close>

definition auth_keys :: "hkey set" where
  "auth_keys = {KStr (ustr ''authorization''), KStr (ustr ''Authorization''),
                KBytes ''authorization'', KBytes ''Authorization''}"

text \<open>
  \<open>s.encode('utf-8')\<close>, the byte sequence that carries a text. It is defined for the
  code points a text can be encoded from: up to U+10FFFF, surrogates excluded.
\<close>

definition scalar :: "nat \<Rightarrow> bool" where
  "scalar c = (c < 1114112 \<and> \<not> (55296 \<le> c \<and> c < 57344))"

definition utf8_encode_cp :: "nat \<Rightarrow> bytes" where
  "utf8_encode_cp c =
     (if c < 128 then [char_of c]
      else if c < 2048 then [char_of (192 + c div 64), char_of (128 + c mod 64)]
      else if c < 65536 then
        [char_of (224 + c div 4096), char_of (128 + c div 64 mod 64), char_of (128 + c mod 64)]
      else [char_of (240 + c div 262144), char_of (128 + c div 4096 mod 64),
            char_of (128 + c div 64 mod 64), char_of (128 + c mod 64)])"

definition utf8_encode :: "pystr \<Rightarrow> bytes" where
  "utf8_encode s = concat (map utf8_encode_cp s)"

text \<open>
  The first of a list of candidates that counts as true; when none does, the last
  candidate, as a chain of \<open>or\<close> returns it.
\<close>

fun first_truthy :: "pyval list \<Rightarrow> pyval" where
  "first_truthy [] = PNone"
| "first_truthy [x] = x"
| "first_truthy (x # y # ys) = (if truthy x then x else first_truthy (y # ys))"

text \<open>A payload whose \<open>metadata\<close> entry, when there is one, is a dict.\<close>

definition metadata_absent_or_dict :: "store \<Rightarrow> ref \<Rightarrow> bool" where
  "metadata_absent_or_dict h val =
     (case map_of (h ! val) (ustr ''metadata'') of
        None \<Rightarrow> True
      | Some (ODict m) \<Rightarrow> True
      | Some _ \<Rightarrow> False)"

text \<open>
  The payload and, when it has one, its metadata dict are objects of the store.
\<close>

definition in_store :: "store \<Rightarrow> ref \<Rightarrow> bool" where
  "in_store h val =
     (val < length h \<and>
      (case map_of (h ! val) (ustr ''metadata'') of
         Some (ODict m) \<Rightarrow> m < length h
       | _ \<Rightarrow> True))"

text \<open>
  The reference to the payload's metadata dict after the call: the one the payload
  holds, and the next free reference when the key is absent.
\<close>

definition metadata_ref :: "store \<Rightarrow> ref \<Rightarrow> ref" where
  "metadata_ref h val =
     (case map_of (h ! val) (ustr ''metadata'') of Some (ODict m) \<Rightarrow> m | _ \<Rightarrow> length h)"

text \<open>The entries of the payload's metadata before the call; none when the key is absent.\<close>

definition old_metadata :: "store \<Rightarrow> ref \<Rightarrow> dict_obj" where
  "old_metadata h val =
     (case map_of (h ! val) (ustr ''metadata'') of Some (ODict m) \<Rightarrow> h ! m | _ \<Rightarrow> [])"

text \<open>
  A library whose \<open>jwt.decode\<close> has the same outcome \<open>r\<close> for every token and key; the
  concrete instances below use it.
\<close>

definition lib_of :: "exn + dict \<Rightarrow> pylib" where
  "lib_of r = \<lparr>jwt_decode = (\<lambda>token key. r), py_repr = (\<lambda>v. [])\<rparr>"

section \<open>Auxiliary facts\<close>

subsection \<open>UTF-8: decoding undoes encoding\<close>

lemma of_char_small: "n < 256 \<Longrightarrow> (of_char (char_of (n::nat)) :: nat) = n"
  by simp

lemma of_char_cont: "(of_char (char_of (128 + n mod 64 :: nat)) :: nat) = 128 + n mod 64"
proof -
  have "n mod 64 < 64" by simp
  then have "128 + n mod 64 < 256" by linarith
  then show ?thesis by (rule of_char_small)
qed

lemma is_cont_enc: "is_cont (char_of (128 + n mod 64 :: nat))"
  unfolding is_cont_def of_char_cont by simp

lemma cont_bits_enc: "cont_bits (char_of (128 + n mod 64 :: nat)) = n mod 64"
  unfolding cont_bits_def of_char_cont by simp

lemma shift64: "(a * 64 + b) * 64 = a * 4096 + b * (64::nat)"
  by simp

lemma shift64_3: "(a * 4096 + b * 64 + d) * 64 = a * 262144 + b * 4096 + d * (64::nat)"
  by simp

lemma split3: "(c::nat) div 4096 * 4096 + c div 64 mod 64 * 64 + c mod 64 = c"
proof -
  have a: "c div 4096 = c div 64 div 64" by (simp add: div_mult2_eq [symmetric])
  have "c div 64 div 64 * 4096 + c div 64 mod 64 * 64
        = (c div 64 div 64 * 64 + c div 64 mod 64) * 64"
    by (rule shift64 [symmetric])
  also have "\<dots> = c div 64 * 64" by (simp only: div_mult_mod_eq)
  finally show ?thesis unfolding a by simp
qed

lemma split4:
  "(c::nat) div 262144 * 262144 + c div 4096 mod 64 * 4096 + c div 64 mod 64 * 64 + c mod 64 = c"
proof -
  have a: "c div 262144 = c div 64 div 4096" "c div 4096 mod 64 = c div 64 div 64 mod 64"
    by (simp_all add: div_mult2_eq [symmetric])
  have "c div 64 div 4096 * 262144 + c div 64 div 64 mod 64 * 4096 + c div 64 mod 64 * 64
        = (c div 64 div 4096 * 4096 + c div 64 div 64 mod 64 * 64 + c div 64 mod 64) * 64"
    by (rule shift64_3 [symmetric])
  also have "\<dots> = c div 64 * 64" by (simp only: split3)
  finally show ?thesis unfolding a by simp
qed

lemma decode_encode_cp1:
  assumes "c < 128"
  shows "utf8_decode (utf8_encode_cp c @ bs) = push_cp c (utf8_decode bs)"
  using assms by (simp add: utf8_encode_cp_def)

lemma decode_encode_cp2:
  assumes "128 \<le> c" "c < 2048"
  shows "utf8_decode (utf8_encode_cp c @ bs) = push_cp c (utf8_decode bs)"
proof -
  have h: "c div 64 < 32" "2 \<le> c div 64" using assms by auto
  then have "192 + c div 64 < 256" by linarith
  then have o: "(of_char (char_of (192 + c div 64)) :: nat) = 192 + c div 64"
    by (rule of_char_small)
  have e: "c div 64 * 64 + c mod 64 = c" by simp
  have "utf8_decode (utf8_encode_cp c @ bs) =
        utf8_decode (char_of (192 + c div 64) # char_of (128 + c mod 64) # bs)"
    using assms by (simp add: utf8_encode_cp_def)
  also have "\<dots> = push_cp (c div 64 * 64 + c mod 64) (utf8_decode bs)"
    using h by (simp add: o is_cont_enc cont_bits_enc Let_def del: of_char_of)
  finally show ?thesis by (simp only: e)
qed

lemma decode_encode_cp3:
  assumes "2048 \<le> c" "c < 65536" "\<not> (55296 \<le> c \<and> c < 57344)"
  shows "utf8_decode (utf8_encode_cp c @ bs) = push_cp c (utf8_decode bs)"
proof -
  have h: "c div 4096 < 16" using assms by auto
  then have "224 + c div 4096 < 256" by linarith
  then have o: "(of_char (char_of (224 + c div 4096)) :: nat) = 224 + c div 4096"
    by (rule of_char_small)
  have "utf8_decode (utf8_encode_cp c @ bs) =
        utf8_decode (char_of (224 + c div 4096) # char_of (128 + c div 64 mod 64)
                     # char_of (128 + c mod 64) # bs)"
    using assms by (simp add: utf8_encode_cp_def)
  also have "\<dots> = push_cp c (utf8_decode bs)"
    using h assms
    by (simp add: o is_cont_enc cont_bits_enc Let_def split3 del: of_char_of)
  finally show ?thesis .
qed

lemma decode_encode_cp4:
  assumes "65536 \<le> c" "c < 1114112"
  shows "utf8_decode (utf8_encode_cp c @ bs) = push_cp c (utf8_decode bs)"
proof -
  have h: "c div 262144 < 5" using assms by auto
  then have "240 + c div 262144 < 256" by linarith
  then have o: "(of_char (char_of (240 + c div 262144)) :: nat) = 240 + c div 262144"
    by (rule of_char_small)
  have "utf8_decode (utf8_encode_cp c @ bs) =
        utf8_decode (char_of (240 + c div 262144) # char_of (128 + c div 4096 mod 64)
                     # char_of (128 + c div 64 mod 64) # char_of (128 + c mod 64) # bs)"
    using assms by (simp add: utf8_encode_cp_def)
  also have "\<dots> = push_cp c (utf8_decode bs)"
    using h assms
    by (simp add: o is_cont_enc cont_bits_enc Let_def split4 del: of_char_of)
  finally show ?thesis .
qed

lemma decode_encode_cp:
  assumes "scalar c"
  shows "utf8_decode (utf8_encode_cp c @ bs) = push_cp c (utf8_decode bs)"
proof -
  consider "c < 128" | "128 \<le> c" "c < 2048" | "2048 \<le> c" "c < 65536" | "65536 \<le> c"
    by linarith
  then show ?thesis
    using assms decode_encode_cp1 decode_encode_cp2 decode_encode_cp3 decode_encode_cp4
    unfolding scalar_def by cases blast+
qed

lemma utf8_decode_encode:
  "\<forall>c\<in>set s. scalar c \<Longrightarrow> utf8_decode (utf8_encode s) = Some s"
proof (induction s)
  case Nil
  then show ?case by (simp add: utf8_encode_def)
next
  case (Cons c s)
  then have "utf8_decode (utf8_encode s) = Some s" by simp
  moreover have "utf8_encode (c # s) = utf8_encode_cp c @ utf8_encode s"
    by (simp add: utf8_encode_def)
  ultimately show ?case using Cons.prems by (simp add: decode_encode_cp push_cp_def)
qed

lemma utf8_encode_empty: "utf8_encode s = [] \<longleftrightarrow> s = []"
  by (cases s) (auto simp: utf8_encode_def utf8_encode_cp_def)

subsection \<open>Reading the header\<close>

lemma get_authorization_falsy:
  assumes "\<forall>k\<in>auth_keys. hs k = None \<or> hs k = Some (VStr []) \<or> hs k = Some (VBytes [])"
  shows "get_authorization hs = None \<or> get_authorization hs = Some (VStr [])
         \<or> get_authorization hs = Some (VBytes [])"
proof -
  have a: "\<not> htruthy (hs (KStr (ustr ''authorization'')))"
      "\<not> htruthy (hs (KStr (ustr ''Authorization'')))"
      "\<not> htruthy (hs (KBytes ''authorization''))"
    using assms unfolding auth_keys_def by auto
  have "get_authorization hs = hs (KBytes ''Authorization'')"
    unfolding get_authorization_def hor_def using a by simp
  then show ?thesis using assms unfolding auth_keys_def by simp
qed

lemma authenticate_falsy:
  assumes "get_authorization hs = None \<or> get_authorization hs = Some (VStr [])
           \<or> get_authorization hs = Some (VBytes [])"
  shows "authenticate lib secret env hs = missing_header env"
  using assms unfolding authenticate_def by auto

lemma get_authorization_single:
  assumes "\<forall>k\<in>auth_keys. hs k = None" "k \<in> auth_keys"
  shows "(htruthy (Some v) \<longrightarrow> get_authorization (hs(k \<mapsto> v)) = Some v)
       \<and> (\<not> htruthy (Some v) \<longrightarrow> get_authorization (hs(k \<mapsto> v)) \<in> {None, Some v})"
  using assms unfolding auth_keys_def get_authorization_def hor_def
  by auto

lemma authenticate_single:
  assumes "\<forall>k\<in>auth_keys. hs k = None" "k \<in> auth_keys" "\<forall>c\<in>set s. scalar c"
      "v = VStr s \<or> v = VBytes (utf8_encode s)"
  shows "authenticate lib secret env (hs(k \<mapsto> v)) =
           (if s = [] then missing_header env else authenticate_value lib secret env s)"
proof (cases "s = []")
  case True
  then have "\<not> htruthy (Some v)" using assms(4) by (auto simp: utf8_encode_empty)
  then have "get_authorization (hs(k \<mapsto> v)) \<in> {None, Some v}"
    using get_authorization_single [OF assms(1,2)] by blast
  then show ?thesis using True assms(4)
    by (auto simp: authenticate_def utf8_encode_def)
next
  case False
  then have "htruthy (Some v)" using assms(4) by (auto simp: utf8_encode_empty)
  then have "get_authorization (hs(k \<mapsto> v)) = Some v"
    using get_authorization_single [OF assms(1,2)] by blast
  then show ?thesis using False assms(3,4)
    by (auto simp: authenticate_def utf8_decode_encode)
qed

section \<open>Requests without an authorization header\<close>

text \<open>
  Claim C4. When the header map binds none of the four authorization keys, the custom
  authenticator returns the anonymous identity (subject \<open>anonymous\<close>, not authenticated)
  if \<open>ALLOW_ANONYMOUS\<close> is set to true, and fails with 401 "Authorization header
  required" otherwise; when \<open>ALLOW_ANONYMOUS\<close> is not set at all, it is false.
\<close>

theorem missing_header_anonymous_or_401:
  assumes "\<forall>k\<in>auth_keys. hs k = None"
  shows "authenticate lib secret env hs =
           (if allow_anonymous env
            then Inr \<lparr>identity = ustr ''anonymous'',
                      display_name = PStr (ustr ''Anonymous User''),
                      is_authenticated = False,
                      email = None, permissions = None, metadata = None\<rparr>
            else Inl (HTTPException 401 (ustr ''Authorization header required'')))
         \<and> (env (ustr ''ALLOW_ANONYMOUS'') = None \<longrightarrow> \<not> allow_anonymous env)"
proof -
  have "authenticate lib secret env hs = missing_header env"
    using assms by (intro authenticate_falsy get_authorization_falsy) simp
  moreover have "env (ustr ''ALLOW_ANONYMOUS'') = None \<longrightarrow> \<not> allow_anonymous env"
    by (simp add: allow_anonymous_def getenv_default_def py_lower_def lower_char_def)
  ultimately show ?thesis by (simp add: missing_header_def)
qed

theorem missing_header_anonymous_or_401_witness:
  "authenticate (lib_of (Inl InvalidTokenError)) (ustr ''k'') Map.empty
     [KStr (ustr ''accept'') \<mapsto> VStr (ustr ''*/*'')]
   = Inl (HTTPException 401 (ustr ''Authorization header required''))
   \<and> authenticate (lib_of (Inl InvalidTokenError)) (ustr ''k'')
       [ustr ''ALLOW_ANONYMOUS'' \<mapsto> ustr ''True'']
       [KStr (ustr ''accept'') \<mapsto> VStr (ustr ''*/*'')]
     = Inr \<lparr>identity = ustr ''anonymous'',
            display_name = PStr (ustr ''Anonymous User''),
            is_authenticated = False,
            email = None, permissions = None, metadata = None\<rparr>"
  using missing_header_anonymous_or_401
          [of "[KStr (ustr ''accept'') \<mapsto> VStr (ustr ''*/*'')]"
              "lib_of (Inl InvalidTokenError)" "ustr ''k''" Map.empty]
        missing_header_anonymous_or_401
          [of "[KStr (ustr ''accept'') \<mapsto> VStr (ustr ''*/*'')]"
              "lib_of (Inl InvalidTokenError)" "ustr ''k''"
              "[ustr ''ALLOW_ANONYMOUS'' \<mapsto> ustr ''True'']"]
  by (simp add: auth_keys_def allow_anonymous_def getenv_default_def py_lower_def lower_char_def)

text \<open>
  Claim C10. A header map whose authorization keys are absent or hold an empty string
  or an empty byte sequence is treated like the same map without any authorization key:
  the result is that of the missing-header branch, and the check of the format is not
  reached.
\<close>

theorem empty_header_value_is_missing:
  assumes "\<forall>k\<in>auth_keys. hs k = None \<or> hs k = Some (VStr []) \<or> hs k = Some (VBytes [])"
  shows "authenticate lib secret env hs =
           authenticate lib secret env (\<lambda>k. if k \<in> auth_keys then None else hs k)
         \<and> authenticate lib secret env hs =
           (if allow_anonymous env
            then Inr \<lparr>identity = ustr ''anonymous'',
                      display_name = PStr (ustr ''Anonymous User''),
                      is_authenticated = False,
                      email = None, permissions = None, metadata = None\<rparr>
            else Inl (HTTPException 401 (ustr ''Authorization header required'')))"
proof -
  have 1: "authenticate lib secret env hs = missing_header env"
    using assms by (intro authenticate_falsy get_authorization_falsy)
  have 2: "authenticate lib secret env (\<lambda>k. if k \<in> auth_keys then None else hs k)
           = missing_header env"
    by (intro authenticate_falsy get_authorization_falsy) simp
  show ?thesis unfolding 1 2 by (simp add: missing_header_def)
qed

theorem empty_header_value_is_missing_witness:
  "authenticate (lib_of (Inl InvalidTokenError)) (ustr ''k'') Map.empty
     [KStr (ustr ''authorization'') \<mapsto> VStr [], KBytes ''Authorization'' \<mapsto> VBytes []]
   = Inl (HTTPException 401 (ustr ''Authorization header required''))"
proof -
  have h: "\<forall>k\<in>auth_keys.
             [KStr (ustr ''authorization'') \<mapsto> VStr [], KBytes ''Authorization'' \<mapsto> VBytes []] k = None
           \<or> [KStr (ustr ''authorization'') \<mapsto> VStr [], KBytes ''Authorization'' \<mapsto> VBytes []] k
               = Some (VStr [])
           \<or> [KStr (ustr ''authorization'') \<mapsto> VStr [], KBytes ''Authorization'' \<mapsto> VBytes []] k
               = Some (VBytes [])"
    by (simp add: auth_keys_def)
  have e: "\<not> allow_anonymous Map.empty"
    by (simp add: allow_anonymous_def getenv_default_def py_lower_def lower_char_def)
  show ?thesis
    using empty_header_value_is_missing
            [OF h, of "lib_of (Inl InvalidTokenError)" "ustr ''k''" Map.empty, THEN conjunct2] e
    by (simp only: if_False)
qed

section \<open>The four ways to carry the header\<close>

text \<open>
  Claim C7. For one header value, carried under any of the four keys, as text or as the
  UTF-8 encoding of that text, the custom authenticator gives the same result.
\<close>

theorem header_variants_agree:
  assumes "\<forall>k\<in>auth_keys. hs k = None" and "\<forall>c\<in>set s. scalar c"
    and "k \<in> auth_keys" and "k' \<in> auth_keys"
    and "v = VStr s \<or> v = VBytes (utf8_encode s)"
    and "v' = VStr s \<or> v' = VBytes (utf8_encode s)"
  shows "authenticate lib secret env (hs(k \<mapsto> v)) = authenticate lib secret env (hs(k' \<mapsto> v'))"
  using assms by (simp add: authenticate_single [where s = s])

theorem header_variants_agree_witness:
  "authenticate (lib_of (Inl InvalidTokenError)) (ustr ''k'') Map.empty
     [KStr (ustr ''authorization'') \<mapsto> VStr (ustr ''Bearer noop-'' @ [233])]
   = authenticate (lib_of (Inl InvalidTokenError)) (ustr ''k'') Map.empty
     [KBytes ''Authorization'' \<mapsto> VBytes (''Bearer noop-'' @ [CHR 0xC3, CHR 0xA9])]"
proof -
  have h: "\<forall>k\<in>auth_keys. (Map.empty :: headers) k = None" by simp
  have s: "\<forall>c\<in>set (ustr ''Bearer noop-'' @ [233]). scalar c" by (simp add: scalar_def)
  have k: "KStr (ustr ''authorization'') \<in> auth_keys" "KBytes ''Authorization'' \<in> auth_keys"
    by (simp_all add: auth_keys_def)
  have b: "''Bearer noop-'' @ [CHR 0xC3, CHR 0xA9] = utf8_encode (ustr ''Bearer noop-'' @ [233])"
    by code_simp
  show ?thesis
    using header_variants_agree [OF h s k, of "VStr (ustr ''Bearer noop-'' @ [233])"
            "VBytes (''Bearer noop-'' @ [CHR 0xC3, CHR 0xA9])"
            "lib_of (Inl InvalidTokenError)" "ustr ''k''" Map.empty] b
    by simp
qed

section \<open>Bearer tokens\<close>

subsection \<open>Stripping the scheme\<close>

lemma replace_from_no_occurrence:
  "\<not> sublist old s \<Longrightarrow> replace_from old new s = s"
proof (induction s)
  case Nil
  then show ?case by simp
next
  case (Cons c cs)
  have "\<not> prefix old (c # cs)" using Cons.prems by (auto dest: prefix_imp_sublist)
  moreover have "\<not> sublist old cs" using Cons.prems by (auto simp: sublist_Cons_right)
  ultimately show ?case using Cons.IH by simp
qed

lemma token_of_Bearer:
  assumes "\<not> sublist (ustr ''Bearer '') t"
  shows "token_of (ustr ''Bearer '' @ t) = t"
proof -
  have "token_of (ustr ''Bearer '' @ t) = replace_from (ustr ''Bearer '') [] t"
    by (simp add: token_of_def str_replace_def)
  also have "\<dots> = t" using assms by (rule replace_from_no_occurrence)
  finally show ?thesis .
qed

lemma authenticate_header_value:
  assumes "decode_authorization (get_authorization hs) = Inr (Some a)" "prefix (ustr ''Bearer '') a"
  shows "authenticate lib secret env hs =
           (if is_dummy (token_of a) then Inr (dummy_user (token_of a))
            else validate_jwt lib secret env (token_of a))"
proof -
  have "a \<noteq> []" using assms(2) by auto
  then show ?thesis using assms by (simp add: authenticate_def authenticate_value_def Let_def)
qed

text \<open>A header value without the scheme is refused (lines 90 to 94).\<close>

lemma authenticate_invalid_format:
  assumes "decode_authorization (get_authorization hs) = Inr (Some a)"
    and "a \<noteq> []" and "\<not> prefix (ustr ''Bearer '') a"
  shows "authenticate lib secret env hs = Inl (HTTPException 401 invalid_format_detail)"
  using assms by (simp add: authenticate_def authenticate_value_def)

section \<open>Failed verification\<close>

text \<open>
  Claim C3. Take a request whose token reaches signature verification: the header value
  starts with \<open>Bearer \<close>, the token is not a development token and the secret is not
  empty. When \<open>jwt.decode\<close> raises \<open>ExpiredSignatureError\<close>, authentication fails with 401
  "Token expired", whatever the environment. When it raises another
  \<open>InvalidTokenError\<close>, authentication returns the authenticated identity
  \<open>dev-user-invalid-token\<close> if \<open>NODE_ENV\<close> is \<open>development\<close>, and fails with 401 "Invalid
  authentication token" otherwise.
\<close>

theorem verification_failure_results:
  assumes "decode_authorization (get_authorization hs) = Inr (Some a)"
    and "prefix (ustr ''Bearer '') a"
    and "\<not> is_dummy (token_of a)"
    and "secret \<noteq> []"
  shows "(jwt_decode lib (token_of a) secret = Inl ExpiredSignatureError \<longrightarrow>
            authenticate lib secret env hs = Inl (HTTPException 401 (ustr ''Token expired'')))
       \<and> (jwt_decode lib (token_of a) secret = Inl InvalidTokenError \<longrightarrow>
            authenticate lib secret env hs =
              (if development env
               then Inr \<lparr>identity = ustr ''dev-user-invalid-token'',
                         display_name = PStr (ustr ''Dev User (Invalid Token)''),
                         is_authenticated = True,
                         email = None, permissions = None, metadata = None\<rparr>
               else Inl (HTTPException 401 (ustr ''Invalid authentication token''))))"
  using assms
  by (simp add: authenticate_header_value validate_jwt_def verify_body_def)


theorem verification_failure_results_witness:
  "authenticate (lib_of (Inl ExpiredSignatureError)) (ustr ''k'') Map.empty
     [KStr (ustr ''authorization'') \<mapsto> VStr (ustr ''Bearer abc'')]
   = Inl (HTTPException 401 (ustr ''Token expired''))
   \<and> authenticate (lib_of (Inl ExpiredSignatureError)) (ustr ''k'')
       [ustr ''NODE_ENV'' \<mapsto> ustr ''development'']
       [KStr (ustr ''authorization'') \<mapsto> VStr (ustr ''Bearer abc'')]
     = Inl (HTTPException 401 (ustr ''Token expired''))
   \<and> authenticate (lib_of (Inl InvalidTokenError)) (ustr ''k'') Map.empty
       [KStr (ustr ''authorization'') \<mapsto> VStr (ustr ''Bearer abc'')]
     = Inl (HTTPException 401 (ustr ''Invalid authentication token''))
   \<and> authenticate (lib_of (Inl InvalidTokenError)) (ustr ''k'')
       [ustr ''NODE_ENV'' \<mapsto> ustr ''development'']
       [KStr (ustr ''authorization'') \<mapsto> VStr (ustr ''Bearer abc'')]
     = Inr \<lparr>identity = ustr ''dev-user-invalid-token'',
            display_name = PStr (ustr ''Dev User (Invalid Token)''),
            is_authenticated = True,
            email = None, permissions = None, metadata = None\<rparr>"
proof -
  let ?hs = "[KStr (ustr ''authorization'') \<mapsto> VStr (ustr ''Bearer abc'')]"
  let ?dev = "[ustr ''NODE_ENV'' \<mapsto> ustr ''development'']"
  have h1: "decode_authorization (get_authorization ?hs) = Inr (Some (ustr ''Bearer abc''))"
    by (simp add: get_authorization_def hor_def)
  have h2: "prefix (ustr ''Bearer '') (ustr ''Bearer abc'')" by simp
  have h3: "\<not> is_dummy (token_of (ustr ''Bearer abc''))"
    by (simp add: is_dummy_def token_of_def str_replace_def)
  have h4: "ustr ''k'' \<noteq> []" by simp
  have e: "jwt_decode (lib_of r) t k = r" for r t k by (simp add: lib_of_def)
  have d: "\<not> development Map.empty" "development ?dev" by (simp_all add: development_def)
  note T = verification_failure_results [OF h1 h2 h3 h4]
  have "authenticate (lib_of (Inl ExpiredSignatureError)) (ustr ''k'') Map.empty ?hs
        = Inl (HTTPException 401 (ustr ''Token expired''))"
    using T [of "lib_of (Inl ExpiredSignatureError)" Map.empty] e by blast
  moreover have "authenticate (lib_of (Inl ExpiredSignatureError)) (ustr ''k'') ?dev ?hs
        = Inl (HTTPException 401 (ustr ''Token expired''))"
    using T [of "lib_of (Inl ExpiredSignatureError)" ?dev] e by blast
  moreover have "authenticate (lib_of (Inl InvalidTokenError)) (ustr ''k'') Map.empty ?hs
        = Inl (HTTPException 401 (ustr ''Invalid authentication token''))"
    using T [of "lib_of (Inl InvalidTokenError)" Map.empty] e d(1) by (simp only: if_False)
  moreover have "authenticate (lib_of (Inl InvalidTokenError)) (ustr ''k'') ?dev ?hs
        = Inr \<lparr>identity = ustr ''dev-user-invalid-token'',
            display_name = PStr (ustr ''Dev User (Invalid Token)''),
            is_authenticated = True,
            email = None, permissions = None, metadata = None\<rparr>"
    using T [of "lib_of (Inl InvalidTokenError)" ?dev] e d(2) by (simp only: if_True)
  ultimately show ?thesis by (intro conjI)
qed

section \<open>Development tokens\<close>

text \<open>
  Against claim C2 as stated. The token \<open>anonymous-bob\<close> is neither equal to \<open>anonymous\<close> nor does it start with
  \<open>noop-\<close>, and still it is accepted without verification, as user \<open>bob\<close>: line 99 tests
  \<open>token.startswith("anonymous")\<close>. The library used here rejects every token, so the
  identity does not come from a signature check.
\<close>

theorem dev_bypass_anonymous_prefix_counterexample:
  "ustr ''anonymous-bob'' \<noteq> ustr ''anonymous''
   \<and> \<not> prefix (ustr ''noop-'') (ustr ''anonymous-bob'')
   \<and> authenticate (lib_of (Inl InvalidTokenError)) (ustr ''k'') Map.empty
       [KStr (ustr ''authorization'') \<mapsto> VStr (ustr ''Bearer anonymous-bob'')]
     = Inr \<lparr>identity = ustr ''bob'',
            display_name = PStr (ustr ''Dev User (bob)''),
            is_authenticated = True,
            email = None, permissions = None, metadata = None\<rparr>"
  by (simp add: authenticate_def get_authorization_def hor_def authenticate_value_def
        token_of_def str_replace_def is_dummy_def dummy_user_def split1_last_def)

text \<open>
  Claim C2, amended. For a header value \<open>Bearer \<close> followed by a token \<open>t\<close> in which
  \<open>Bearer \<close> does not occur again, the development branch is taken exactly when \<open>t\<close>
  starts with \<open>anonymous\<close> or with \<open>noop-\<close>. When taken, the result is an authenticated
  identity, made without calling \<open>jwt.decode\<close>, whose subject is what follows the first
  hyphen of \<open>t\<close>, and \<open>anonymous\<close> when \<open>t\<close> has no hyphen. Otherwise the request goes on to
  the check of the secret and to verification.
\<close>

theorem dev_bypass_tokens:
  assumes "decode_authorization (get_authorization hs) = Inr (Some (ustr ''Bearer '' @ t))"
    and "\<not> sublist (ustr ''Bearer '') t"
  shows "authenticate lib secret env hs =
           (if prefix (ustr ''anonymous'') t \<or> prefix (ustr ''noop-'') t
            then Inr \<lparr>identity =
                        (if 45 \<in> set t then tl (dropWhile (\<lambda>c. c \<noteq> 45) t)
                         else ustr ''anonymous''),
                      display_name = PStr
                        (ustr ''Dev User (''
                         @ (if 45 \<in> set t then tl (dropWhile (\<lambda>c. c \<noteq> 45) t)
                            else ustr ''anonymous'')
                         @ ustr '')''),
                      is_authenticated = True,
                      email = None, permissions = None, metadata = None\<rparr>
            else validate_jwt lib secret env t)"
proof -
  have p: "prefix (ustr ''Bearer '') (ustr ''Bearer '' @ t)" by (rule prefixI) simp
  have "authenticate lib secret env hs =
          (if is_dummy t then Inr (dummy_user t) else validate_jwt lib secret env t)"
    using authenticate_header_value [OF assms(1) p] token_of_Bearer [OF assms(2)] by simp
  then show ?thesis
    by (simp add: is_dummy_def dummy_user_def split1_last_def Let_def)
qed

theorem dev_bypass_tokens_witness:
  "authenticate (lib_of (Inl InvalidTokenError)) (ustr ''k'') Map.empty
     [KStr (ustr ''authorization'') \<mapsto> VStr (ustr ''Bearer noop-team42'')]
   = Inr \<lparr>identity = ustr ''team42'',
          display_name = PStr (ustr ''Dev User (team42)''),
          is_authenticated = True,
          email = None, permissions = None, metadata = None\<rparr>"
proof -
  let ?hs = "[KStr (ustr ''authorization'') \<mapsto> VStr (ustr ''Bearer noop-team42'')]"
  have h1: "decode_authorization (get_authorization ?hs)
            = Inr (Some (ustr ''Bearer '' @ ustr ''noop-team42''))"
    by (simp add: get_authorization_def hor_def)
  have h2: "\<not> sublist (ustr ''Bearer '') (ustr ''noop-team42'')"
    by code_simp
  show ?thesis
    using dev_bypass_tokens [OF h1 h2, of "lib_of (Inl InvalidTokenError)" "ustr ''k''" Map.empty]
    by simp
qed

text \<open>
  Claim C5 says that the token is the header value without its leading \<open>Bearer \<close>.
  Line 96 calls \<open>replace\<close>, which removes every occurrence: for the header value
  \<open>Bearer Bearer noop-x\<close> the token is \<open>noop-x\<close>, not \<open>Bearer noop-x\<close>, and the request is
  accepted as the development user \<open>x\<close>, although what follows the scheme is not a
  development token.
\<close>

theorem interior_Bearer_removed:
  "token_of (ustr ''Bearer Bearer noop-x'') = ustr ''noop-x''
   \<and> drop 7 (ustr ''Bearer Bearer noop-x'') = ustr ''Bearer noop-x''
   \<and> \<not> is_dummy (ustr ''Bearer noop-x'')
   \<and> authenticate (lib_of (Inl InvalidTokenError)) (ustr ''k'') Map.empty
       [KStr (ustr ''authorization'') \<mapsto> VStr (ustr ''Bearer Bearer noop-x'')]
     = Inr \<lparr>identity = ustr ''x'',
            display_name = PStr (ustr ''Dev User (x)''),
            is_authenticated = True,
            email = None, permissions = None, metadata = None\<rparr>"
  by (simp add: authenticate_def get_authorization_def hor_def authenticate_value_def
        token_of_def str_replace_def is_dummy_def dummy_user_def split1_last_def)

section \<open>The signing secret\<close>

text \<open>
  Against claim C8 as stated. When \<open>SECRET_KEY\<close> is not set, \<open>JWT_SECRET\<close> is the placeholder, which is not empty:
  outside development mode a token that fails verification gets 401 "Invalid
  authentication token", not the 500 of the branch for a missing secret.
\<close>

theorem unset_SECRET_KEY_counterexample:
  "JWT_SECRET_of Map.empty = ustr ''mock-secret-key-for-migrations''
   \<and> \<not> development Map.empty
   \<and> authenticate (lib_of (Inl InvalidTokenError)) (JWT_SECRET_of Map.empty) Map.empty
       [KStr (ustr ''authorization'') \<mapsto> VStr (ustr ''Bearer abc'')]
     = Inl (HTTPException 401 (ustr ''Invalid authentication token''))"
  by (simp add: JWT_SECRET_of_def getenv_default_def development_def
        authenticate_def get_authorization_def hor_def authenticate_value_def
        token_of_def str_replace_def is_dummy_def validate_jwt_def verify_body_def lib_of_def)

text \<open>
  Claim C8, amended. For a request with a bearer token that is not a development token:
  when the secret is the empty string, authentication returns the identity \<open>dev-user\<close>
  (authenticated) if \<open>NODE_ENV\<close> is \<open>development\<close> and fails with 500 "Authentication not
  properly configured" otherwise. The secret is empty exactly when \<open>SECRET_KEY\<close> is set to
  the empty string. When \<open>SECRET_KEY\<close> is not set, the secret is the placeholder
  \<open>mock-secret-key-for-migrations\<close> and the token is verified against it.
\<close>

theorem missing_secret_results:
  assumes "decode_authorization (get_authorization hs) = Inr (Some a)"
    and "prefix (ustr ''Bearer '') a"
    and "\<not> is_dummy (token_of a)"
  shows "(secret = [] \<longrightarrow>
            authenticate lib secret env hs =
              (if development env
               then Inr \<lparr>identity = ustr ''dev-user'',
                         display_name = PStr (ustr ''Development User''),
                         is_authenticated = True,
                         email = None, permissions = None, metadata = None\<rparr>
               else Inl (HTTPException 500 (ustr ''Authentication not properly configured''))))
       \<and> (JWT_SECRET_of env0 = [] \<longleftrightarrow> env0 (ustr ''SECRET_KEY'') = Some [])
       \<and> (env0 (ustr ''SECRET_KEY'') = None \<longrightarrow>
            JWT_SECRET_of env0 = ustr ''mock-secret-key-for-migrations''
            \<and> authenticate lib (JWT_SECRET_of env0) env hs =
                verify_handlers env
                  (verify_body lib (ustr ''mock-secret-key-for-migrations'') (token_of a)))"
proof -
  have 1: "authenticate lib s env hs = validate_jwt lib s env (token_of a)" for s
    using assms by (simp add: authenticate_header_value)
  have 2: "JWT_SECRET_of env0 = [] \<longleftrightarrow> env0 (ustr ''SECRET_KEY'') = Some []"
    by (simp add: JWT_SECRET_of_def getenv_default_def split: option.splits)
  have 3: "env0 (ustr ''SECRET_KEY'') = None \<longrightarrow>
             JWT_SECRET_of env0 = ustr ''mock-secret-key-for-migrations''"
    by (simp add: JWT_SECRET_of_def getenv_default_def)
  show ?thesis using 2 3 unfolding 1 by (auto simp: validate_jwt_def)
qed


theorem missing_secret_results_witness:
  "authenticate (lib_of (Inl InvalidTokenError)) [] Map.empty
     [KStr (ustr ''authorization'') \<mapsto> VStr (ustr ''Bearer abc'')]
   = Inl (HTTPException 500 (ustr ''Authentication not properly configured''))
   \<and> authenticate (lib_of (Inl InvalidTokenError)) []
       [ustr ''NODE_ENV'' \<mapsto> ustr ''development'']
       [KStr (ustr ''authorization'') \<mapsto> VStr (ustr ''Bearer abc'')]
     = Inr \<lparr>identity = ustr ''dev-user'',
            display_name = PStr (ustr ''Development User''),
            is_authenticated = True,
            email = None, permissions = None, metadata = None\<rparr>
   \<and> JWT_SECRET_of [ustr ''SECRET_KEY'' \<mapsto> []] = []
   \<and> JWT_SECRET_of Map.empty = ustr ''mock-secret-key-for-migrations''"
proof -
  let ?hs = "[KStr (ustr ''authorization'') \<mapsto> VStr (ustr ''Bearer abc'')]"
  let ?dev = "[ustr ''NODE_ENV'' \<mapsto> ustr ''development'']"
  let ?L = "lib_of (Inl InvalidTokenError)"
  have h1: "decode_authorization (get_authorization ?hs) = Inr (Some (ustr ''Bearer abc''))"
    by (simp add: get_authorization_def hor_def)
  have h2: "prefix (ustr ''Bearer '') (ustr ''Bearer abc'')" by simp
  have h3: "\<not> is_dummy (token_of (ustr ''Bearer abc''))"
    by (simp add: is_dummy_def token_of_def str_replace_def)
  have d: "\<not> development Map.empty" "development ?dev" by (simp_all add: development_def)
  note T = missing_secret_results [OF h1 h2 h3]
  have "authenticate ?L [] Map.empty ?hs
        = Inl (HTTPException 500 (ustr ''Authentication not properly configured''))"
    using T [of "[]" ?L Map.empty Map.empty, THEN conjunct1] d(1) by (simp only: if_False simp_thms)
  moreover have "authenticate ?L [] ?dev ?hs
        = Inr \<lparr>identity = ustr ''dev-user'',
            display_name = PStr (ustr ''Development User''),
            is_authenticated = True,
            email = None, permissions = None, metadata = None\<rparr>"
    using T [of "[]" ?L ?dev Map.empty, THEN conjunct1] d(2) by (simp only: if_True simp_thms)
  moreover have "JWT_SECRET_of [ustr ''SECRET_KEY'' \<mapsto> []] = []"
    using T [of "[]" ?L Map.empty "[ustr ''SECRET_KEY'' \<mapsto> []]", THEN conjunct2, THEN conjunct1]
    by simp
  moreover have "JWT_SECRET_of Map.empty = ustr ''mock-secret-key-for-migrations''"
    using T [of "[]" ?L Map.empty Map.empty, THEN conjunct2, THEN conjunct2] by simp
  ultimately show ?thesis by (intro conjI)
qed

section \<open>Verified tokens\<close>

lemma py_or_chain3: "py_or (py_or a b) c = first_truthy [a, b, c]"
  by (simp add: py_or_def)

lemma py_or_chain4: "py_or (first_truthy [a, b, c]) d = first_truthy [a, b, c, d]"
  by (simp add: py_or_def)

text \<open>
  Against claim C6 as stated. A payload with \<open>sub\<close>, \<open>username\<close> and \<open>email\<close> but no \<open>name\<close>: the display name is the
  \<open>username\<close> claim, not the \<open>email\<close> claim.
\<close>

theorem display_name_username_counterexample:
  "dict_get [(ustr ''sub'', PStr (ustr ''u1'')), (ustr ''username'', PStr (ustr ''bob'')),
             (ustr ''email'', PStr (ustr ''b@x''))] (ustr ''name'') = PNone
   \<and> authenticate
       (lib_of (Inr [(ustr ''sub'', PStr (ustr ''u1'')), (ustr ''username'', PStr (ustr ''bob'')),
                     (ustr ''email'', PStr (ustr ''b@x''))]))
       (ustr ''k'') Map.empty
       [KStr (ustr ''authorization'') \<mapsto> VStr (ustr ''Bearer abc'')]
     = Inr \<lparr>identity = ustr ''u1'',
            display_name = PStr (ustr ''bob''),
            is_authenticated = True,
            email = Some (PStr (ustr ''b@x'')),
            permissions = Some [ustr ''read'', ustr ''write''],
            metadata = Some [(ustr ''provider'', PNone), (ustr ''org_id'', PNone),
                             (ustr ''company_id'', PNone), (ustr ''family_id'', PNone)]\<rparr>"
  by (simp add: authenticate_def get_authorization_def hor_def authenticate_value_def
        token_of_def str_replace_def is_dummy_def validate_jwt_def verify_body_def lib_of_def
        dict_get_def py_or_def)

text \<open>
  Claim C6, amended. For a token that \<open>jwt.decode\<close> accepts: let \<open>u\<close> be the first of the
  claims \<open>user_id\<close>, \<open>sub\<close>, \<open>id\<close> that counts as true. When there is one, the identity
  has the subject \<open>str(u)\<close>; its display name is the first that counts as true of the
  claims \<open>name\<close>, \<open>username\<close>, \<open>email\<close>, and \<open>str(u)\<close> when none does; \<open>email\<close> is the
  \<open>email\<close> claim; the permissions are \<open>read\<close> and \<open>write\<close>; it is authenticated; and its
  metadata holds the claims \<open>provider\<close>, \<open>orgId\<close>, \<open>companyId\<close> and \<open>familyId\<close>.
\<close>

theorem verified_identity:
  assumes "decode_authorization (get_authorization hs) = Inr (Some a)"
    and "prefix (ustr ''Bearer '') a"
    and "\<not> is_dummy (token_of a)"
    and "secret \<noteq> []"
    and "jwt_decode lib (token_of a) secret = Inr payload"
    and "truthy (first_truthy [dict_get payload (ustr ''user_id''),
                               dict_get payload (ustr ''sub''),
                               dict_get payload (ustr ''id'')])"
  shows "authenticate lib secret env hs =
           Inr \<lparr>identity =
                  py_str (py_repr lib)
                    (first_truthy [dict_get payload (ustr ''user_id''),
                                   dict_get payload (ustr ''sub''),
                                   dict_get payload (ustr ''id'')]),
                display_name =
                  first_truthy
                    [dict_get payload (ustr ''name''),
                     dict_get payload (ustr ''username''),
                     dict_get payload (ustr ''email''),
                     PStr (py_str (py_repr lib)
                       (first_truthy [dict_get payload (ustr ''user_id''),
                                      dict_get payload (ustr ''sub''),
                                      dict_get payload (ustr ''id'')]))],
                is_authenticated = True,
                email = Some (dict_get payload (ustr ''email'')),
                permissions = Some [ustr ''read'', ustr ''write''],
                metadata = Some
                  [(ustr ''provider'', dict_get payload (ustr ''provider'')),
                   (ustr ''org_id'', dict_get payload (ustr ''orgId'')),
                   (ustr ''company_id'', dict_get payload (ustr ''companyId'')),
                   (ustr ''family_id'', dict_get payload (ustr ''familyId''))]\<rparr>"
proof -
  have "authenticate lib secret env hs = verify_handlers env (verify_body lib secret (token_of a))"
    using assms(1-4) by (simp add: authenticate_header_value validate_jwt_def)
  then show ?thesis
    using assms(5,6)
    by (simp add: verify_body_def Let_def py_or_chain3 py_or_chain4 del: first_truthy.simps)
qed

theorem verified_identity_witness:
  "authenticate (lib_of (Inr [(ustr ''sub'', PStr (ustr ''u1''))])) (ustr ''k'') Map.empty
     [KStr (ustr ''authorization'') \<mapsto> VStr (ustr ''Bearer abc'')]
   = Inr \<lparr>identity = ustr ''u1'',
          display_name = PStr (ustr ''u1''),
          is_authenticated = True,
          email = Some PNone,
          permissions = Some [ustr ''read'', ustr ''write''],
          metadata = Some [(ustr ''provider'', PNone), (ustr ''org_id'', PNone),
                           (ustr ''company_id'', PNone), (ustr ''family_id'', PNone)]\<rparr>"
proof -
  let ?hs = "[KStr (ustr ''authorization'') \<mapsto> VStr (ustr ''Bearer abc'')]"
  let ?P = "[(ustr ''sub'', PStr (ustr ''u1''))]"
  have h1: "decode_authorization (get_authorization ?hs) = Inr (Some (ustr ''Bearer abc''))"
    by (simp add: get_authorization_def hor_def)
  have h2: "prefix (ustr ''Bearer '') (ustr ''Bearer abc'')" by simp
  have h3: "\<not> is_dummy (token_of (ustr ''Bearer abc''))"
    by (simp add: is_dummy_def token_of_def str_replace_def)
  have h4: "ustr ''k'' \<noteq> []" by simp
  have h5: "jwt_decode (lib_of (Inr ?P)) (token_of (ustr ''Bearer abc'')) (ustr ''k'') = Inr ?P"
    by (simp add: lib_of_def)
  have h6: "truthy (first_truthy [dict_get ?P (ustr ''user_id''), dict_get ?P (ustr ''sub''),
                                  dict_get ?P (ustr ''id'')])"
    by (simp add: dict_get_def)
  show ?thesis
    using verified_identity [OF h1 h2 h3 h4 h5 h6, of Map.empty]
    by (simp add: dict_get_def)
qed


text \<open>
  When none of \<open>user_id\<close>, \<open>sub\<close>, \<open>id\<close> counts as true, line 150 raises a 401 inside the
  \<open>try\<close>; the handler of line 190 catches it, and the caller sees a 500.
\<close>

lemma authenticate_missing_identity:
  assumes "decode_authorization (get_authorization hs) = Inr (Some a)"
    and "prefix (ustr ''Bearer '') a"
    and "\<not> is_dummy (token_of a)"
    and "secret \<noteq> []"
    and "jwt_decode lib (token_of a) secret = Inr payload"
    and "\<not> truthy (first_truthy [dict_get payload (ustr ''user_id''),
                                 dict_get payload (ustr ''sub''),
                                 dict_get payload (ustr ''id'')])"
  shows "authenticate lib secret env hs =
           Inl (HTTPException 500 (ustr ''Authentication system error''))"
proof -
  have "authenticate lib secret env hs = verify_handlers env (verify_body lib secret (token_of a))"
    using assms(1-4) by (simp add: authenticate_header_value validate_jwt_def)
  then show ?thesis
    using assms(5,6)
    by (simp add: verify_body_def Let_def py_or_chain3 del: first_truthy.simps)
qed

section \<open>The owner filter\<close>

subsection \<open>Dicts and the effect of the authorizer\<close>

lemma map_of_dict_set: "map_of (dict_set d k v) = (map_of d)(k \<mapsto> v)"
  by (induction d k v rule: dict_set.induct) auto

lemma dict_set_same: "map_of d k = Some v \<Longrightarrow> dict_set d k v = d"
  by (induction d k v rule: dict_set.induct) (auto split: if_splits)

lemma authorize_empty_subject:
  "authorize [] h val = (Inl (HTTPException 401 (ustr ''Invalid user identity'')), h)"
  by (simp add: authorize_def authorize_body_def)

lemma authorize_present:
  assumes "user_id \<noteq> []" "map_of (h ! val) (ustr ''metadata'') = Some (ODict m)"
  shows "authorize user_id h val =
           (Inr [(ustr ''owner'', OStr user_id)],
            h[m := dict_set (h ! m) (ustr ''owner'') (OStr user_id)])"
  using assms
  by (simp add: authorize_def authorize_body_def setdefault_empty_dict_def Let_def)

lemma authorize_absent:
  assumes "user_id \<noteq> []" "map_of (h ! val) (ustr ''metadata'') = None" "val < length h"
  shows "authorize user_id h val =
           (Inr [(ustr ''owner'', OStr user_id)],
            (h @ [[]])[val := dict_set (h ! val) (ustr ''metadata'') (ODict (length h)),
                       length h := [(ustr ''owner'', OStr user_id)]])"
  using assms
  by (simp add: authorize_def authorize_body_def setdefault_empty_dict_def Let_def
        nth_list_update nth_append)

lemma authorize_returns_filter:
  assumes "user_id \<noteq> []" "metadata_absent_or_dict h val"
  shows "fst (authorize user_id h val) = Inr [(ustr ''owner'', OStr user_id)]"
proof (cases "map_of (h ! val) (ustr ''metadata'')")
  case None
  then show ?thesis using assms(1)
    by (simp add: authorize_def authorize_body_def setdefault_empty_dict_def Let_def)
next
  case (Some x)
  then obtain m where "x = ODict m"
    using assms(2) by (cases x) (simp_all add: metadata_absent_or_dict_def)
  then show ?thesis using Some assms(1) by (simp add: authorize_present)
qed

lemma authorize_not_a_dict:
  assumes "user_id \<noteq> []" "\<not> metadata_absent_or_dict h val"
  shows "authorize user_id h val =
           (Inl (HTTPException 500 (ustr ''Authorization system error'')), h)"
proof -
  obtain x where x: "map_of (h ! val) (ustr ''metadata'') = Some x" "\<forall>m. x \<noteq> ODict m"
    using assms(2) by (auto simp: metadata_absent_or_dict_def split: option.splits obj.splits)
  then show ?thesis using assms(1)
    by (cases x)
       (simp_all add: authorize_def authorize_body_def setdefault_empty_dict_def Let_def)
qed

subsection \<open>The filter\<close>

text \<open>
  Against claim C1 as stated. A payload whose \<open>metadata\<close> entry is \<open>None\<close>: \<open>setdefault\<close>
  returns the \<open>None\<close>, the call of \<open>update\<close> on it raises, and the authorizer fails with
  500 instead of returning the filter.
\<close>

theorem authorize_metadata_None_counterexample:
  "ustr ''u1'' \<noteq> []
   \<and> authorize (ustr ''u1'') [[(ustr ''metadata'', ONone)]] 0
     = (Inl (HTTPException 500 (ustr ''Authorization system error'')),
        [[(ustr ''metadata'', ONone)]])
   \<and> fst (authorize (ustr ''u1'') [[(ustr ''metadata'', ONone)]] 0)
     \<noteq> Inr [(ustr ''owner'', OStr (ustr ''u1''))]"
  by (simp add: authorize_def authorize_body_def setdefault_empty_dict_def Let_def)

text \<open>
  Claim C1, amended. For a non-empty subject and a payload whose \<open>metadata\<close> entry is
  absent or a dict, the authorizer returns exactly the filter \<open>{owner: subject}\<close>. For
  every subject and payload, a filter that is returned has the caller's subject as its
  owner, and nothing else in it; a payload whose \<open>metadata\<close> entry is not a dict gets no
  filter but a 500 "Authorization system error". For an empty subject the authorizer
  fails with 401 "Invalid user identity". On both failures nothing is changed.
\<close>

theorem authorize_owner_filter:
  "(user_id \<noteq> [] \<and> metadata_absent_or_dict h val \<longrightarrow>
      fst (authorize user_id h val) = Inr [(ustr ''owner'', OStr user_id)])
   \<and> (\<forall>f. fst (authorize user_id h val) = Inr f \<longrightarrow>
         f = [(ustr ''owner'', OStr user_id)] \<and> user_id \<noteq> [])
   \<and> (user_id \<noteq> [] \<and> \<not> metadata_absent_or_dict h val \<longrightarrow>
         authorize user_id h val
           = (Inl (HTTPException 500 (ustr ''Authorization system error'')), h))
   \<and> (user_id = [] \<longrightarrow>
         authorize user_id h val = (Inl (HTTPException 401 (ustr ''Invalid user identity'')), h))"
proof -
  have 1: "user_id = [] \<Longrightarrow>
        authorize user_id h val = (Inl (HTTPException 401 (ustr ''Invalid user identity'')), h)"
    by (simp add: authorize_empty_subject)
  have 2: "user_id \<noteq> [] \<Longrightarrow> metadata_absent_or_dict h val \<Longrightarrow>
        fst (authorize user_id h val) = Inr [(ustr ''owner'', OStr user_id)]"
    by (rule authorize_returns_filter)
  have 4: "user_id \<noteq> [] \<Longrightarrow> \<not> metadata_absent_or_dict h val \<Longrightarrow>
        authorize user_id h val
          = (Inl (HTTPException 500 (ustr ''Authorization system error'')), h)"
    by (rule authorize_not_a_dict)
  have 3: "f = [(ustr ''owner'', OStr user_id)] \<and> user_id \<noteq> []"
    if "fst (authorize user_id h val) = Inr f" for f
  proof (cases "user_id = []")
    case True
    then show ?thesis using that 1 by simp
  next
    case False
    show ?thesis
    proof (cases "metadata_absent_or_dict h val")
      case True
      then show ?thesis using that False 2 by simp
    next
      case n: False
      then show ?thesis using that False 4 by simp
    qed
  qed
  show ?thesis using 1 2 3 4 by blast
qed

theorem authorize_owner_filter_witness:
  "fst (authorize (ustr ''u1'') [[(ustr ''thread_id'', OInt 7)]] 0)
     = Inr [(ustr ''owner'', OStr (ustr ''u1''))]
   \<and> authorize (ustr ''u1'') [[(ustr ''metadata'', OInt 0)]] 0
     = (Inl (HTTPException 500 (ustr ''Authorization system error'')),
        [[(ustr ''metadata'', OInt 0)]])
   \<and> authorize [] [[(ustr ''thread_id'', OInt 7)]] 0
     = (Inl (HTTPException 401 (ustr ''Invalid user identity'')), [[(ustr ''thread_id'', OInt 7)]])"
proof -
  have a: "ustr ''u1'' \<noteq> [] \<and> metadata_absent_or_dict [[(ustr ''thread_id'', OInt 7)]] 0"
    by (simp add: metadata_absent_or_dict_def)
  have b: "ustr ''u1'' \<noteq> [] \<and> \<not> metadata_absent_or_dict [[(ustr ''metadata'', OInt 0)]] 0"
    by (simp add: metadata_absent_or_dict_def)
  show ?thesis
    using authorize_owner_filter [of "ustr ''u1''" "[[(ustr ''thread_id'', OInt 7)]]" 0] a
          authorize_owner_filter [of "ustr ''u1''" "[[(ustr ''metadata'', OInt 0)]]" 0] b
          authorize_owner_filter [of "[]" "[[(ustr ''thread_id'', OInt 7)]]" 0]
    by blast
qed


subsection \<open>The stamp\<close>

text \<open>
  Against claim C9 as stated. First, a payload whose \<open>metadata\<close> entry is a string:
  nothing is stamped, nothing is changed and the authorizer fails with 500. Second, a
  payload whose entries \<open>metadata\<close> and \<open>config\<close> hold the same dict object: the dict is
  changed in place, so after the call the payload's \<open>config\<close>, which is not its
  metadata entry, has the owner too.
\<close>

theorem authorize_stamp_counterexample:
  "ustr ''u1'' \<noteq> []
   \<and> authorize (ustr ''u1'') [[(ustr ''metadata'', OStr (ustr ''m''))]] 0
     = (Inl (HTTPException 500 (ustr ''Authorization system error'')),
        [[(ustr ''metadata'', OStr (ustr ''m''))]])
   \<and> authorize (ustr ''u1'')
       [[(ustr ''metadata'', ODict 1), (ustr ''config'', ODict 1)],
        [(ustr ''topic'', OStr (ustr ''x''))]] 0
     = (Inr [(ustr ''owner'', OStr (ustr ''u1''))],
        [[(ustr ''metadata'', ODict 1), (ustr ''config'', ODict 1)],
         [(ustr ''topic'', OStr (ustr ''x'')), (ustr ''owner'', OStr (ustr ''u1''))]])"
  by (simp add: authorize_def authorize_body_def setdefault_empty_dict_def Let_def)

text \<open>
  Claim C9, amended. For a non-empty subject and a payload whose \<open>metadata\<close> entry is
  absent or a dict: after the call the payload's \<open>metadata\<close> entry is a dict whose \<open>owner\<close>
  is the subject, the owner of the returned filter; every other key of that dict holds
  what it held before; every other key of the payload holds what it held before (the
  payload not being its own metadata dict); every dict object other than the metadata
  dict and the payload is unchanged, so that a part of the payload differs after the
  call only where it is the metadata dict object itself; and a second call with the
  same subject returns the same filter and leaves everything as the first call left it.
\<close>

theorem authorize_stamps_owner:
  assumes "user_id \<noteq> []" and "metadata_absent_or_dict h val" and "in_store h val"
  shows "fst (authorize user_id h val) = Inr [(ustr ''owner'', OStr user_id)]
       \<and> map_of (snd (authorize user_id h val) ! val) (ustr ''metadata'')
           = Some (ODict (metadata_ref h val))
       \<and> map_of (snd (authorize user_id h val) ! metadata_ref h val) (ustr ''owner'')
           = Some (OStr user_id)
       \<and> (\<forall>k. k \<noteq> ustr ''owner'' \<longrightarrow>
             map_of (snd (authorize user_id h val) ! metadata_ref h val) k
               = map_of (old_metadata h val) k)
       \<and> (\<forall>k. k \<noteq> ustr ''metadata'' \<longrightarrow> metadata_ref h val \<noteq> val \<longrightarrow>
             map_of (snd (authorize user_id h val) ! val) k = map_of (h ! val) k)
       \<and> (\<forall>r. r < length h \<longrightarrow> r \<noteq> metadata_ref h val \<longrightarrow> r \<noteq> val \<longrightarrow>
             snd (authorize user_id h val) ! r = h ! r)
       \<and> authorize user_id (snd (authorize user_id h val)) val = authorize user_id h val"
proof (cases "map_of (h ! val) (ustr ''metadata'')")
  case None
  define P where "P = dict_set (h ! val) (ustr ''metadata'') (ODict (length h))"
  define F where "F = [(ustr ''owner'', OStr user_id)]"
  define h' where "h' = (h @ [[]])[val := P, length h := F]"
  have v: "val < length h" using assms(3) by (simp add: in_store_def)
  have a: "authorize user_id h val = (Inr F, h')"
    unfolding h'_def P_def F_def by (rule authorize_absent [OF assms(1) None v])
  have m: "metadata_ref h val = length h" "old_metadata h val = []"
    using None by (simp_all add: metadata_ref_def old_metadata_def)
  have hv: "h' ! val = P" using v by (simp add: h'_def nth_list_update)
  have hm: "h' ! length h = F" by (simp add: h'_def)
  have md: "map_of (h' ! val) (ustr ''metadata'') = Some (ODict (length h))"
    unfolding hv by (simp add: P_def map_of_dict_set)
  have frame: "\<forall>k. k \<noteq> ustr ''metadata'' \<longrightarrow> map_of (h' ! val) k = map_of (h ! val) k"
    unfolding hv by (simp add: P_def map_of_dict_set)
  have rest: "\<forall>r. r < length h \<longrightarrow> r \<noteq> val \<longrightarrow> h' ! r = h ! r"
    by (simp add: h'_def nth_list_update nth_append)
  have "authorize user_id h' val
          = (Inr F, h'[length h := dict_set (h' ! length h) (ustr ''owner'') (OStr user_id)])"
    unfolding F_def by (rule authorize_present [OF assms(1) md])
  also have "dict_set (h' ! length h) (ustr ''owner'') (OStr user_id) = F"
    unfolding hm by (simp add: F_def)
  also have "h'[length h := F] = h'" by (simp add: h'_def)
  finally have idem: "authorize user_id h' val = authorize user_id h val" using a by simp
  show ?thesis
    using md frame rest idem hm unfolding a m by (simp add: F_def)
next
  case (Some x)
  then obtain m where x: "x = ODict m"
    using assms(2) by (cases x) (simp_all add: metadata_absent_or_dict_def)
  have md0: "map_of (h ! val) (ustr ''metadata'') = Some (ODict m)" using Some x by simp
  define D where "D = dict_set (h ! m) (ustr ''owner'') (OStr user_id)"
  define F where "F = [(ustr ''owner'', OStr user_id)]"
  define h' where "h' = h[m := D]"
  have v: "val < length h" "m < length h" using assms(3) md0 by (simp_all add: in_store_def)
  have a: "authorize user_id h val = (Inr F, h')"
    unfolding h'_def D_def F_def by (rule authorize_present [OF assms(1) md0])
  have m: "metadata_ref h val = m" "old_metadata h val = h ! m"
    using md0 by (simp_all add: metadata_ref_def old_metadata_def)
  have hm: "h' ! m = D" using v by (simp add: h'_def)
  have hv: "h' ! val = (if val = m then D else h ! val)"
    using v by (simp add: h'_def nth_list_update)
  have md: "map_of (h' ! val) (ustr ''metadata'') = Some (ODict m)"
    unfolding hv using md0 by (auto simp: D_def map_of_dict_set)
  have own: "map_of D (ustr ''owner'') = Some (OStr user_id)"
    by (simp add: D_def map_of_dict_set)
  have others: "\<forall>k. k \<noteq> ustr ''owner'' \<longrightarrow> map_of D k = map_of (h ! m) k"
    by (simp add: D_def map_of_dict_set)
  have frame: "\<forall>k. k \<noteq> ustr ''metadata'' \<longrightarrow> m \<noteq> val \<longrightarrow> map_of (h' ! val) k = map_of (h ! val) k"
    unfolding hv by simp
  have rest: "\<forall>r. r < length h \<longrightarrow> r \<noteq> m \<longrightarrow> h' ! r = h ! r"
    by (simp add: h'_def)
  have "authorize user_id h' val
          = (Inr F, h'[m := dict_set (h' ! m) (ustr ''owner'') (OStr user_id)])"
    unfolding F_def by (rule authorize_present [OF assms(1) md])
  also have "dict_set (h' ! m) (ustr ''owner'') (OStr user_id) = D"
    unfolding hm using own by (rule dict_set_same)
  also have "h'[m := D] = h'" by (simp add: h'_def)
  finally have idem: "authorize user_id h' val = authorize user_id h val" using a by simp
  show ?thesis
    using md own others frame rest idem unfolding a m by (simp add: F_def hm)
qed

theorem authorize_stamps_owner_witness:
  "authorize (ustr ''u1'')
     [[(ustr ''metadata'', ODict 1), (ustr ''thread_id'', OInt 7)],
      [(ustr ''topic'', OStr (ustr ''x''))]] 0
   = (Inr [(ustr ''owner'', OStr (ustr ''u1''))],
      [[(ustr ''metadata'', ODict 1), (ustr ''thread_id'', OInt 7)],
       [(ustr ''topic'', OStr (ustr ''x'')), (ustr ''owner'', OStr (ustr ''u1''))]])
   \<and> authorize (ustr ''u1'')
       (snd (authorize (ustr ''u1'')
          [[(ustr ''metadata'', ODict 1), (ustr ''thread_id'', OInt 7)],
           [(ustr ''topic'', OStr (ustr ''x''))]] 0)) 0
     = authorize (ustr ''u1'')
         [[(ustr ''metadata'', ODict 1), (ustr ''thread_id'', OInt 7)],
          [(ustr ''topic'', OStr (ustr ''x''))]] 0
   \<and> snd (authorize (ustr ''u1'') [[(ustr ''thread_id'', OInt 7)]] 0) ! 1
     = [(ustr ''owner'', OStr (ustr ''u1''))]"
proof -
  let ?h = "[[(ustr ''metadata'', ODict 1), (ustr ''thread_id'', OInt 7)],
             [(ustr ''topic'', OStr (ustr ''x''))]]"
  let ?g = "[[(ustr ''thread_id'', OInt 7)]]"
  have h1: "ustr ''u1'' \<noteq> []" by simp
  have h2: "metadata_absent_or_dict ?h 0" by (simp add: metadata_absent_or_dict_def)
  have h3: "in_store ?h 0" by (simp add: in_store_def)
  have g2: "metadata_absent_or_dict ?g 0" by (simp add: metadata_absent_or_dict_def)
  have g3: "in_store ?g 0" by (simp add: in_store_def)
  have e: "authorize (ustr ''u1'') ?h 0
     = (Inr [(ustr ''owner'', OStr (ustr ''u1''))],
      [[(ustr ''metadata'', ODict 1), (ustr ''thread_id'', OInt 7)],
       [(ustr ''topic'', OStr (ustr ''x'')), (ustr ''owner'', OStr (ustr ''u1''))]])"
    by (simp add: authorize_def authorize_body_def setdefault_empty_dict_def Let_def)
  have r: "metadata_ref ?g 0 = 1" by (simp add: metadata_ref_def)
  have o: "snd (authorize (ustr ''u1'') ?g 0) ! 1 = [(ustr ''owner'', OStr (ustr ''u1''))]"
    by (simp add: authorize_def authorize_body_def setdefault_empty_dict_def Let_def)
  show ?thesis
    using authorize_stamps_owner [OF h1 h2 h3] authorize_stamps_owner [OF h1 g2 g3] e o
    by blast
qed

end
